theory Spec2Isabelle
  imports Main "HOL-Library.List_Lexorder" "HOL-Library.Sublist"
begin

section \<open>Text values\<close>

text \<open>
  SQLite TEXT values and Python \<open>str\<close> values are sequences of Unicode code points:
  \<open>SUBSTR\<close>, \<open>LIKE\<close>, \<open>||\<close>, slicing and comparison all work per code point. A text is
  therefore a list of code points; a literal of the source is written \<open>lit ''session''\<close>.
  Lists are compared lexicographically, which is how Python compares \<open>str\<close> values and how
  SQLite's default BINARY collation compares TEXT values.
\<close>

type_synonym utext = "nat list"

definition lit :: "string \<Rightarrow> utext" where
  "lit s = map of_char s"

text \<open>Python's \<open>str(n)\<close> of an integer, which is also what an f-string field prints.\<close>

fun digits :: "nat \<Rightarrow> utext" where
  "digits n = (if n < 10 then [48 + n] else digits (n div 10) @ [48 + n mod 10])"

declare digits.simps [simp del]

definition str_int :: "int \<Rightarrow> utext" where
  "str_int i = (if i < 0 then 45 # digits (nat (- i)) else digits (nat i))"

section \<open>The backing store\<close>

text \<open>
  Modelled from the spec: the \<open>CREATE TABLE\<close> statements of the memory database are not
  part of the source file. The rows below have the columns that the queries of
  \<open>MemoryDB\<close> name, typed as in the spec's data model (identifiers are integers, every
  other column is text, and no column is NULL).
\<close>

record session_row =
  s_id :: int
  s_created_at :: utext
  s_summary :: utext

record knowledge_row =
  k_id :: int
  k_area :: utext
  k_summary :: utext
  k_updated_at :: utext

record fact_row =
  f_id :: int
  f_fact :: utext

record entity_metadata_row =
  em_id :: int
  em_entity :: utext
  em_entity_type :: utext
  em_source_type :: utext
  em_source_id :: int
  em_created_at :: utext

record entry_relation_row =
  er_from_type :: utext
  er_from_id :: int
  er_to_type :: utext
  er_to_id :: int
  er_relation :: utext
  er_created_at :: utext

text \<open>
  A database file holds any subset of the tables: \<open>None\<close> is a table that does not
  exist, \<open>Some rows\<close> a table with its rows in scan order. Of \<open>memory_fts\<close> only the
  existence is ever read.
\<close>

record store =
  sessions :: "session_row list option"
  knowledge :: "knowledge_row list option"
  facts :: "fact_row list option"
  entity_metadata :: "entity_metadata_row list option"
  entry_relations :: "entry_relation_row list option"
  memory_fts :: bool

datatype error = FileNotFoundError | OperationalError | OverflowError

section \<open>The MemoryDB object\<close>

text \<open>The dictionary \<open>self.tables\<close>: one flag per table name.\<close>

record table_flags =
  t_sessions :: bool
  t_knowledge :: bool
  t_facts :: bool
  t_entity_metadata :: bool
  t_entry_relations :: bool
  t_memory_fts :: bool

record MemoryDB =
  db_path :: utext
  conn :: store
  tables :: table_flags

definition ensure_tables_exist :: "store \<Rightarrow> table_flags" where
  "ensure_tables_exist st =
     \<lparr>t_sessions = (sessions st \<noteq> None),
      t_knowledge = (knowledge st \<noteq> None),
      t_facts = (facts st \<noteq> None),
      t_entity_metadata = (entity_metadata st \<noteq> None),
      t_entry_relations = (entry_relations st \<noteq> None),
      t_memory_fts = memory_fts st\<rparr>"

text \<open>
  \<open>MemoryDB.__init__\<close>: the file system is a partial map from paths to database files;
  a path that is no file raises \<open>FileNotFoundError\<close>.
\<close>

definition MemoryDB_init :: "(utext \<rightharpoonup> store) \<Rightarrow> utext \<Rightarrow> error + MemoryDB" where
  "MemoryDB_init fs path =
     (case fs path of
        None \<Rightarrow> Inl FileNotFoundError
      | Some st \<Rightarrow> Inr \<lparr>db_path = path, conn = st, tables = ensure_tables_exist st\<rparr>)"

text \<open>The object that the constructor builds for an existing database file.\<close>

definition open_db :: "utext \<Rightarrow> store \<Rightarrow> MemoryDB" where
  "open_db path st = \<lparr>db_path = path, conn = st, tables = ensure_tables_exist st\<rparr>"

definition has_entities :: "MemoryDB \<Rightarrow> bool" where
  "has_entities self = t_entity_metadata (tables self)"

definition has_relations :: "MemoryDB \<Rightarrow> bool" where
  "has_relations self = t_entry_relations (tables self)"

section \<open>SQL and Python primitives\<close>

text \<open>
  A Python \<open>int\<close> bound to a \<open>?\<close> parameter must fit SQLite's 64-bit INTEGER; the
  \<open>sqlite3\<close> module raises \<open>OverflowError\<close> otherwise.
\<close>

definition bind_int :: "int \<Rightarrow> error + int" where
  "bind_int n = (if - (2 ^ 63) \<le> n \<and> n < 2 ^ 63 then Inr n else Inl OverflowError)"

text \<open>\<open>LIMIT n\<close>: a negative \<open>n\<close> means no upper bound.\<close>

definition sql_limit :: "int \<Rightarrow> 'a list \<Rightarrow> 'a list" where
  "sql_limit n xs = (if n < 0 then xs else take (nat n) xs)"

text \<open>The Python slice \<open>xs[:n]\<close>: a negative \<open>n\<close> counts from the end.\<close>

definition py_slice_to :: "int \<Rightarrow> 'a list \<Rightarrow> 'a list" where
  "py_slice_to n xs =
     (if n < 0 then take (length xs - nat (- n)) xs else take (nat n) xs)"

text \<open>
  \<open>ORDER BY key DESC\<close> and \<open>list.sort(key=..., reverse=True)\<close>. Python's sort is
  stable also when reversed: entries with equal keys keep their order. SQL leaves the
  order of rows with equal keys open; the model uses the same stable sort on the scan
  order, and no theorem below depends on how ties are broken.
\<close>

definition order_by_desc :: "('a \<Rightarrow> 'k::linorder) \<Rightarrow> 'a list \<Rightarrow> 'a list" where
  "order_by_desc key xs = rev (sort_key key (rev xs))"

text \<open>
  \<open>GROUP BY key\<close> with \<open>COUNT(*)\<close>: the rows are scanned once; each group keeps its
  key, the number of its rows, and one of its rows, from which the columns that are
  neither grouped nor aggregated are read (SQLite takes them from an arbitrary row of
  the group; the model keeps the row scanned last).
\<close>

fun tally :: "'k \<Rightarrow> 'r \<Rightarrow> ('k \<times> nat \<times> 'r) list \<Rightarrow> ('k \<times> nat \<times> 'r) list" where
  "tally k r [] = [(k, 1, r)]"
| "tally k r ((k', n, r') # gs) =
     (if k' = k then (k', Suc n, r) # gs else (k', n, r') # tally k r gs)"

definition group_count :: "('r \<Rightarrow> 'k) \<Rightarrow> 'r list \<Rightarrow> ('k \<times> nat \<times> 'r) list" where
  "group_count key rows = foldl (\<lambda>gs r. tally (key r) r gs) [] rows"

section \<open>Statistics\<close>

record stats =
  st_sessions :: nat
  st_knowledge :: nat
  st_facts :: nat
  st_entity_metadata :: nat
  st_entry_relations :: nat

text \<open>\<open>SELECT COUNT(*) FROM tbl\<close>, which fails when the table does not exist.\<close>

definition count_rows :: "'a list option \<Rightarrow> error + nat" where
  "count_rows tbl = (case tbl of None \<Rightarrow> Inl OperationalError | Some rows \<Rightarrow> Inr (length rows))"

definition stat_of :: "bool \<Rightarrow> 'a list option \<Rightarrow> error + nat" where
  "stat_of flag tbl = (if flag then count_rows tbl else Inr 0)"

definition get_stats :: "MemoryDB \<Rightarrow> error + stats" where
  "get_stats self =
     (case stat_of (t_sessions (tables self)) (sessions (conn self)) of Inl e \<Rightarrow> Inl e | Inr a \<Rightarrow>
      case stat_of (t_knowledge (tables self)) (knowledge (conn self)) of Inl e \<Rightarrow> Inl e | Inr b \<Rightarrow>
      case stat_of (t_facts (tables self)) (facts (conn self)) of Inl e \<Rightarrow> Inl e | Inr c \<Rightarrow>
      case stat_of (t_entity_metadata (tables self)) (entity_metadata (conn self)) of Inl e \<Rightarrow> Inl e | Inr d \<Rightarrow>
      case stat_of (t_entry_relations (tables self)) (entry_relations (conn self)) of Inl e \<Rightarrow> Inl e | Inr f \<Rightarrow>
      Inr \<lparr>st_sessions = a, st_knowledge = b, st_facts = c,
           st_entity_metadata = d, st_entry_relations = f\<rparr>)"

section \<open>Entities\<close>

record top_entity =
  te_entity :: utext
  te_entity_type :: utext
  te_ref_count :: nat

text \<open>
  The query shared by \<open>get_entities\<close> and \<open>get_top_entities\<close>:
  \<open>SELECT entity, entity_type, COUNT(*) as ref_count FROM entity_metadata
  GROUP BY entity, entity_type ORDER BY ref_count DESC LIMIT ?\<close>.
  The statement is compiled (a missing table fails there) before its parameter is bound.
\<close>

definition entity_counts :: "MemoryDB \<Rightarrow> int \<Rightarrow> error + top_entity list" where
  "entity_counts self limit =
     (case entity_metadata (conn self) of
        None \<Rightarrow> Inl OperationalError
      | Some rows \<Rightarrow>
          (case bind_int limit of
             Inl e \<Rightarrow> Inl e
           | Inr n \<Rightarrow>
               Inr (sql_limit n (order_by_desc te_ref_count
                     (map (\<lambda>(k, c, r). \<lparr>te_entity = fst k, te_entity_type = snd k, te_ref_count = c\<rparr>)
                        (group_count (\<lambda>r. (em_entity r, em_entity_type r)) rows))))))"

record entity_item =
  ei_entity :: utext
  ei_refs :: nat

text \<open>
  \<open>grouped[r["entity_type"]].append(...)\<close> on a \<open>defaultdict(list)\<close>: a dictionary in
  insertion order, as an association list.
\<close>

fun grouped_append :: "utext \<Rightarrow> entity_item \<Rightarrow> (utext \<times> entity_item list) list
    \<Rightarrow> (utext \<times> entity_item list) list" where
  "grouped_append t x [] = [(t, [x])]"
| "grouped_append t x ((t', xs) # g) =
     (if t' = t then (t', xs @ [x]) # g else (t', xs) # grouped_append t x g)"

definition get_entities :: "MemoryDB \<Rightarrow> int \<Rightarrow> error + (utext \<times> entity_item list) list" where
  "get_entities self limit =
     (if \<not> has_entities self then Inr []
      else case entity_counts self limit of
             Inl e \<Rightarrow> Inl e
           | Inr rows \<Rightarrow>
               Inr (foldl (\<lambda>grouped r.
                      grouped_append (te_entity_type r)
                        \<lparr>ei_entity = te_entity r, ei_refs = te_ref_count r\<rparr> grouped) [] rows))"

definition get_top_entities :: "MemoryDB \<Rightarrow> int \<Rightarrow> error + top_entity list" where
  "get_top_entities self limit =
     (if \<not> has_entities self then Inr [] else entity_counts self limit)"

section \<open>Co-occurrences\<close>

record co_occurrence =
  entity_a :: utext
  type_a :: utext
  entity_b :: utext
  type_b :: utext
  shared_sources :: nat

text \<open>
  \<open>FROM entity_metadata a JOIN entity_metadata b ON a.source_type = b.source_type
  AND a.source_id = b.source_id AND a.id < b.id\<close>
\<close>

definition co_join :: "entity_metadata_row list \<Rightarrow> (entity_metadata_row \<times> entity_metadata_row) list" where
  "co_join rows =
     [(a, b). a \<leftarrow> rows, b \<leftarrow> rows,
        em_source_type a = em_source_type b \<and> em_source_id a = em_source_id b \<and> em_id a < em_id b]"

text \<open>\<open>GROUP BY a.entity, b.entity\<close>, one output row per group.\<close>

definition co_groups :: "entity_metadata_row list \<Rightarrow> co_occurrence list" where
  "co_groups rows =
     map (\<lambda>(k, c, (a, b)).
            \<lparr>entity_a = em_entity a, type_a = em_entity_type a,
             entity_b = em_entity b, type_b = em_entity_type b, shared_sources = c\<rparr>)
       (group_count (\<lambda>(a, b). (em_entity a, em_entity b)) (co_join rows))"

definition get_co_occurrences :: "MemoryDB \<Rightarrow> int \<Rightarrow> error + co_occurrence list" where
  "get_co_occurrences self limit =
     (if \<not> has_entities self then Inr []
      else case entity_metadata (conn self) of
             None \<Rightarrow> Inl OperationalError
           | Some rows \<Rightarrow>
               (case bind_int limit of
                  Inl e \<Rightarrow> Inl e
                | Inr n \<Rightarrow>
                    Inr (sql_limit n (order_by_desc shared_sources
                          (filter (\<lambda>g. 2 \<le> shared_sources g) (co_groups rows))))))"

section \<open>Relations\<close>

record labeled_relation =
  from_type :: utext
  from_id :: int
  to_type :: utext
  to_id :: int
  relation :: utext
  from_label :: "utext option"
  to_label :: "utext option"

text \<open>
  The endpoint label of \<open>get_relations\<close>:
  \<open>CASE ty WHEN 'session' THEN (SELECT SUBSTR(summary, 1, 60) FROM sessions WHERE id = i)
  WHEN 'knowledge' THEN (SELECT area FROM knowledge WHERE id = i)
  WHEN 'fact' THEN (SELECT SUBSTR(fact, 1, 60) FROM facts WHERE id = i) END\<close>.
  A scalar subquery yields the value of the first row it finds and NULL (\<open>None\<close>) when
  there is none; a \<open>CASE\<close> without a matching \<open>WHEN\<close> is NULL as well.
\<close>

definition relation_label ::
    "session_row list \<Rightarrow> knowledge_row list \<Rightarrow> fact_row list \<Rightarrow> utext \<Rightarrow> int \<Rightarrow> utext option" where
  "relation_label ss ks fs ty i =
     (if ty = lit ''session'' then map_option (\<lambda>s. take 60 (s_summary s)) (find (\<lambda>s. s_id s = i) ss)
      else if ty = lit ''knowledge'' then map_option k_area (find (\<lambda>k. k_id k = i) ks)
      else if ty = lit ''fact'' then map_option (\<lambda>f. take 60 (f_fact f)) (find (\<lambda>f. f_id f = i) fs)
      else None)"

definition label_relation ::
    "session_row list \<Rightarrow> knowledge_row list \<Rightarrow> fact_row list \<Rightarrow> entry_relation_row \<Rightarrow> labeled_relation" where
  "label_relation ss ks fs er =
     \<lparr>from_type = er_from_type er, from_id = er_from_id er,
      to_type = er_to_type er, to_id = er_to_id er, relation = er_relation er,
      from_label = relation_label ss ks fs (er_from_type er) (er_from_id er),
      to_label = relation_label ss ks fs (er_to_type er) (er_to_id er)\<rparr>"

text \<open>
  The statement names \<open>entry_relations\<close>, \<open>sessions\<close>, \<open>knowledge\<close> and \<open>facts\<close>;
  SQLite refuses to compile it when one of them does not exist.
\<close>

definition get_relations :: "MemoryDB \<Rightarrow> error + labeled_relation list" where
  "get_relations self =
     (if \<not> has_relations self then Inr []
      else case (entry_relations (conn self), sessions (conn self),
                 knowledge (conn self), facts (conn self)) of
             (Some ers, Some ss, Some ks, Some fs) \<Rightarrow>
               Inr (map (label_relation ss ks fs) (sql_limit 100 (order_by_desc er_created_at ers)))
           | _ \<Rightarrow> Inl OperationalError)"

subsection \<open>The relation table of the two renderers\<close>

text \<open>\<open>label or fallback\<close> on an optional text: \<open>None\<close> and the empty text are falsy.\<close>

definition py_or :: "utext option \<Rightarrow> utext \<Rightarrow> utext" where
  "py_or x y = (case x of None \<Rightarrow> y | Some s \<Rightarrow> if s = [] then y else s)"

text \<open>The f-string \<open>f"{type}:{id}"\<close>.\<close>

definition placeholder :: "utext \<Rightarrow> int \<Rightarrow> utext" where
  "placeholder ty i = ty @ lit '':'' @ str_int i"

text \<open>
  One table row, \<open>(str(from_lbl)[:w], rel["relation"], str(to_lbl)[:w])\<close>; the width
  \<open>w\<close> is 35 in \<open>RichRenderer.render_graph\<close> and 30 in \<open>PlainRenderer.render_graph\<close>,
  and both render \<open>relations[:30]\<close>.
\<close>

definition relation_row :: "nat \<Rightarrow> labeled_relation \<Rightarrow> utext \<times> utext \<times> utext" where
  "relation_row w rel =
     (take w (py_or (from_label rel) (placeholder (from_type rel) (from_id rel))),
      relation rel,
      take w (py_or (to_label rel) (placeholder (to_type rel) (to_id rel))))"

definition rich_relation_rows :: "labeled_relation list \<Rightarrow> (utext \<times> utext \<times> utext) list" where
  "rich_relation_rows relations = map (relation_row 35) (py_slice_to 30 relations)"


section \<open>Timeline\<close>

record timeline_entry =
  tl_id :: int
  tl_created_at :: utext
  tl_summary :: utext
  tl_type :: utext

definition session_entry :: "session_row \<Rightarrow> timeline_entry" where
  "session_entry s =
     \<lparr>tl_id = s_id s, tl_created_at = s_created_at s, tl_summary = s_summary s,
      tl_type = lit ''session''\<rparr>"

definition knowledge_entry :: "knowledge_row \<Rightarrow> timeline_entry" where
  "knowledge_entry k =
     \<lparr>tl_id = k_id k, tl_created_at = k_updated_at k,
      tl_summary = k_area k @ lit '': '' @ k_summary k, tl_type = lit ''knowledge''\<rparr>"

text \<open>\<open>SELECT ... FROM sessions ORDER BY created_at DESC LIMIT ?\<close>\<close>

definition select_sessions :: "store \<Rightarrow> int \<Rightarrow> error + timeline_entry list" where
  "select_sessions st limit =
     (case sessions st of
        None \<Rightarrow> Inl OperationalError
      | Some ss \<Rightarrow>
          (case bind_int limit of
             Inl e \<Rightarrow> Inl e
           | Inr n \<Rightarrow> Inr (map session_entry (sql_limit n (order_by_desc s_created_at ss)))))"

text \<open>\<open>SELECT ... FROM knowledge ORDER BY updated_at DESC LIMIT ?\<close>\<close>

definition select_knowledge :: "store \<Rightarrow> int \<Rightarrow> error + timeline_entry list" where
  "select_knowledge st limit =
     (case knowledge st of
        None \<Rightarrow> Inl OperationalError
      | Some ks \<Rightarrow>
          (case bind_int limit of
             Inl e \<Rightarrow> Inl e
           | Inr n \<Rightarrow> Inr (map knowledge_entry (sql_limit n (order_by_desc k_updated_at ks)))))"

definition get_timeline :: "MemoryDB \<Rightarrow> int \<Rightarrow> error + timeline_entry list" where
  "get_timeline self limit =
     (case (if t_sessions (tables self) then select_sessions (conn self) limit else Inr []) of
        Inl e \<Rightarrow> Inl e
      | Inr entries1 \<Rightarrow>
          (case (if t_knowledge (tables self) then select_knowledge (conn self) limit else Inr []) of
             Inl e \<Rightarrow> Inl e
           | Inr entries2 \<Rightarrow>
               Inr (py_slice_to limit (order_by_desc tl_created_at (entries1 @ entries2)))))"

section \<open>Entity detail\<close>

subsection \<open>The LIKE operator\<close>

text \<open>
  SQLite's \<open>LIKE\<close> without \<open>ESCAPE\<close>: in the pattern \<open>%\<close> (code point 37) matches any
  run of characters and \<open>_\<close> (95) any single character; every other character matches
  itself, upper and lower case of the 26 ASCII letters being equal.
\<close>

definition sqlite_lower :: "nat \<Rightarrow> nat" where
  "sqlite_lower c = (if 65 \<le> c \<and> c \<le> 90 then c + 32 else c)"

fun like_match :: "utext \<Rightarrow> utext \<Rightarrow> bool" where
  "like_match [] [] = True"
| "like_match [] (c # s) = False"
| "like_match (p # ps) [] = (p = 37 \<and> like_match ps [])"
| "like_match (p # ps) (c # s) =
     (if p = 37 then like_match ps (c # s) \<or> like_match (p # ps) s
      else (p = 95 \<or> sqlite_lower p = sqlite_lower c) \<and> like_match ps s)"

text \<open>The bound parameter \<open>f"%{entity_name}%"\<close>.\<close>

definition like_pattern :: "utext \<Rightarrow> utext" where
  "like_pattern entity_name = 37 # entity_name @ [37]"

subsection \<open>The three queries\<close>

record source_ref =
  sr_entity_type :: utext
  sr_source_type :: utext
  sr_source_id :: int
  sr_context :: "utext option"

record relation_ref =
  rr_from_type :: utext
  rr_from_id :: int
  rr_to_type :: utext
  rr_to_id :: int
  rr_relation :: utext

record co_entity =
  ce_entity :: utext
  ce_entity_type :: utext
  ce_shared :: nat

record entity_detail =
  ed_entity :: utext
  ed_sources :: "source_ref list"
  ed_relations :: "relation_ref list"
  ed_co_occurring :: "co_entity list"

text \<open>
  The context label of a source:
  \<open>CASE ty WHEN 'session' THEN (SELECT SUBSTR(summary, 1, 80) FROM sessions WHERE id = i)
  WHEN 'knowledge' THEN (SELECT area || ': ' || SUBSTR(summary, 1, 60) FROM knowledge WHERE id = i)
  WHEN 'fact' THEN (SELECT SUBSTR(fact, 1, 80) FROM facts WHERE id = i) END\<close>
\<close>

definition source_context ::
    "session_row list \<Rightarrow> knowledge_row list \<Rightarrow> fact_row list \<Rightarrow> utext \<Rightarrow> int \<Rightarrow> utext option" where
  "source_context ss ks fs ty i =
     (if ty = lit ''session'' then map_option (\<lambda>s. take 80 (s_summary s)) (find (\<lambda>s. s_id s = i) ss)
      else if ty = lit ''knowledge'' then
        map_option (\<lambda>k. k_area k @ lit '': '' @ take 60 (k_summary k)) (find (\<lambda>k. k_id k = i) ks)
      else if ty = lit ''fact'' then map_option (\<lambda>f. take 80 (f_fact f)) (find (\<lambda>f. f_id f = i) fs)
      else None)"

definition detail_sources ::
    "session_row list \<Rightarrow> knowledge_row list \<Rightarrow> fact_row list \<Rightarrow> entity_metadata_row list
      \<Rightarrow> utext \<Rightarrow> source_ref list" where
  "detail_sources ss ks fs ems entity_name =
     map (\<lambda>em. \<lparr>sr_entity_type = em_entity_type em, sr_source_type = em_source_type em,
                sr_source_id = em_source_id em,
                sr_context = source_context ss ks fs (em_source_type em) (em_source_id em)\<rparr>)
       (order_by_desc em_created_at
          (filter (\<lambda>em. like_match (like_pattern entity_name) (em_entity em)) ems))"

text \<open>
  The condition \<open>source_conds\<close> is spliced into the SQL text, one disjunct
  \<open>(from_type='t' AND from_id=i) OR (to_type='t' AND to_id=i)\<close> per source. The model
  reads each splice as the comparison it spells, which is what SQLite parses when the
  source type holds no quote character.
\<close>

definition source_conds :: "source_ref list \<Rightarrow> entry_relation_row \<Rightarrow> bool" where
  "source_conds srcs er =
     list_ex (\<lambda>s. (er_from_type er = sr_source_type s \<and> er_from_id er = sr_source_id s)
                 \<or> (er_to_type er = sr_source_type s \<and> er_to_id er = sr_source_id s)) srcs"

definition detail_relations :: "source_ref list \<Rightarrow> entry_relation_row list \<Rightarrow> relation_ref list" where
  "detail_relations srcs ers =
     map (\<lambda>er. \<lparr>rr_from_type = er_from_type er, rr_from_id = er_from_id er,
                rr_to_type = er_to_type er, rr_to_id = er_to_id er,
                rr_relation = er_relation er\<rparr>)
       (sql_limit 20 (filter (source_conds srcs) ers))"

text \<open>\<open>SELECT DISTINCT\<close>: of equal result rows the first is kept.\<close>

fun sql_distinct :: "'a list \<Rightarrow> 'a list" where
  "sql_distinct [] = []"
| "sql_distinct (x # xs) = x # sql_distinct (filter (\<lambda>y. y \<noteq> x) xs)"

text \<open>
  \<open>FROM entity_metadata a JOIN entity_metadata b ON a.source_type = b.source_type
  AND a.source_id = b.source_id AND a.entity != b.entity WHERE a.entity LIKE ?\<close>
\<close>

definition detail_join ::
    "entity_metadata_row list \<Rightarrow> utext \<Rightarrow> (entity_metadata_row \<times> entity_metadata_row) list" where
  "detail_join ems entity_name =
     [(a, b). a \<leftarrow> ems, b \<leftarrow> ems,
        em_source_type a = em_source_type b \<and> em_source_id a = em_source_id b
          \<and> em_entity a \<noteq> em_entity b,
        like_match (like_pattern entity_name) (em_entity a)]"

definition detail_co_occurring :: "entity_metadata_row list \<Rightarrow> utext \<Rightarrow> co_entity list" where
  "detail_co_occurring ems entity_name =
     sql_limit 20 (order_by_desc ce_shared (sql_distinct
       (map (\<lambda>(k, c, r). \<lparr>ce_entity = fst k, ce_entity_type = snd k, ce_shared = c\<rparr>)
          (group_count (\<lambda>(a, b). (em_entity b, em_entity_type b)) (detail_join ems entity_name)))))"

definition get_entity_detail :: "MemoryDB \<Rightarrow> utext \<Rightarrow> error + entity_detail" where
  "get_entity_detail self entity_name =
     (if \<not> has_entities self then
        Inr \<lparr>ed_entity = entity_name, ed_sources = [], ed_relations = [], ed_co_occurring = []\<rparr>
      else case (entity_metadata (conn self), sessions (conn self),
                 knowledge (conn self), facts (conn self)) of
             (Some ems, Some ss, Some ks, Some fs) \<Rightarrow>
               (let srcs = detail_sources ss ks fs ems entity_name in
                case (if has_relations self \<and> srcs \<noteq> [] then
                        (case entry_relations (conn self) of
                           None \<Rightarrow> Inl OperationalError
                         | Some ers \<Rightarrow> Inr (detail_relations srcs ers))
                      else Inr []) of
                  Inl e \<Rightarrow> Inl e
                | Inr rels \<Rightarrow>
                    Inr \<lparr>ed_entity = entity_name, ed_sources = srcs, ed_relations = rels,
                         ed_co_occurring = detail_co_occurring ems entity_name\<rparr>)
           | _ \<Rightarrow> Inl OperationalError)"


section \<open>Calling a method on the object\<close>




section \<open>Notions of the specification\<close>

text \<open>The rows of a table, none when the table does not exist.\<close>

definition table_rows :: "'a list option \<Rightarrow> 'a list" where
  "table_rows tbl = (case tbl of None \<Rightarrow> [] | Some rows \<Rightarrow> rows)"

text \<open>The number of \<open>entity_metadata\<close> rows with a given (entity, entity_type) pair.\<close>

definition mention_count :: "MemoryDB \<Rightarrow> utext \<Rightarrow> utext \<Rightarrow> nat" where
  "mention_count self e t =
     length (filter (\<lambda>r. em_entity r = e \<and> em_entity_type r = t)
               (table_rows (entity_metadata (conn self))))"


text \<open>
  The timeline in the words of the specification: the up to \<open>n\<close> most recent sessions
  and the up to \<open>n\<close> most recent knowledge areas, concatenated, sorted by timestamp
  descending and truncated to \<open>n\<close>.
\<close>

definition most_recent :: "nat \<Rightarrow> ('a \<Rightarrow> utext) \<Rightarrow> 'a list \<Rightarrow> 'a list" where
  "most_recent n stamp rows = take n (order_by_desc stamp rows)"

definition timeline_spec :: "store \<Rightarrow> nat \<Rightarrow> timeline_entry list" where
  "timeline_spec st n =
     take n (order_by_desc tl_created_at
       (map session_entry (most_recent n s_created_at (table_rows (sessions st)))
        @ map knowledge_entry (most_recent n k_updated_at (table_rows (knowledge st)))))"


text \<open>The values of an INTEGER column of SQLite: 64-bit signed integers.\<close>

definition sqlite_integer :: "int \<Rightarrow> bool" where
  "sqlite_integer i = (- (2 ^ 63) \<le> i \<and> i < 2 ^ 63)"

text \<open>
  Some entity name contains the query as a substring, compared case-sensitively; and some
  entity name matches the pattern that \<open>get_entity_detail\<close> binds.
\<close>

definition name_contains_query :: "store \<Rightarrow> utext \<Rightarrow> bool" where
  "name_contains_query st q =
     list_ex (\<lambda>r. sublist q (em_entity r)) (table_rows (entity_metadata st))"

definition name_like_query :: "store \<Rightarrow> utext \<Rightarrow> bool" where
  "name_like_query st q =
     list_ex (\<lambda>r. like_match (like_pattern q) (em_entity r)) (table_rows (entity_metadata st))"


section \<open>Example stores\<close>

definition mention :: "int \<Rightarrow> string \<Rightarrow> string \<Rightarrow> string \<Rightarrow> int \<Rightarrow> entity_metadata_row" where
  "mention i e t s sid =
     \<lparr>em_id = i, em_entity = lit e, em_entity_type = lit t, em_source_type = lit s,
      em_source_id = sid, em_created_at = lit ''2024-01-01 00:00:00''\<rparr>"

text \<open>A database with all tables, of which only \<open>entity_metadata\<close> has rows.\<close>

definition mentions_store :: "entity_metadata_row list \<Rightarrow> store" where
  "mentions_store ms =
     \<lparr>sessions = Some [], knowledge = Some [], facts = Some [],
      entity_metadata = Some ms, entry_relations = Some [], memory_fts = False\<rparr>"

definition memory_db :: "store \<Rightarrow> MemoryDB" where
  "memory_db st = open_db (lit ''memory.db'') st"

text \<open>The first scenario of the specification: "auth" twice, "jwt" once.\<close>

definition scenario_store :: store where
  "scenario_store =
     mentions_store
       [mention 1 ''auth'' ''concept'' ''knowledge'' 1,
        mention 2 ''jwt'' ''concept'' ''knowledge'' 1,
        mention 3 ''auth'' ''concept'' ''session'' 2]"

text \<open>
  The second scenario of the specification: "auth" and "jwt" are both mentioned in
  knowledge#1 and in knowledge#2; the four mention ids are parameters.
\<close>

definition auth_jwt_store :: "int \<Rightarrow> int \<Rightarrow> int \<Rightarrow> int \<Rightarrow> store" where
  "auth_jwt_store i1 i2 i3 i4 =
     mentions_store
       [mention i1 ''auth'' ''concept'' ''knowledge'' 1,
        mention i2 ''jwt'' ''concept'' ''knowledge'' 1,
        mention i3 ''auth'' ''concept'' ''knowledge'' 2,
        mention i4 ''jwt'' ''concept'' ''knowledge'' 2]"

text \<open>The name "auth" recorded as a concept and as a package in each of two sources.\<close>

definition self_pair_store :: store where
  "self_pair_store =
     mentions_store
       [mention 1 ''auth'' ''concept'' ''knowledge'' 1,
        mention 2 ''auth'' ''package'' ''knowledge'' 1,
        mention 3 ''auth'' ''concept'' ''knowledge'' 2,
        mention 4 ''auth'' ''package'' ''knowledge'' 2]"

text \<open>
  "auth" and "jwt" share four sources; in two of them the mention of "auth" has the
  smaller id, in the other two the mention of "jwt".
\<close>

definition reversed_pair_store :: store where
  "reversed_pair_store =
     mentions_store
       [mention 1 ''auth'' ''concept'' ''knowledge'' 1,
        mention 2 ''jwt'' ''concept'' ''knowledge'' 1,
        mention 3 ''auth'' ''concept'' ''knowledge'' 2,
        mention 4 ''jwt'' ''concept'' ''knowledge'' 2,
        mention 5 ''jwt'' ''concept'' ''session'' 1,
        mention 6 ''auth'' ''concept'' ''session'' 1,
        mention 7 ''jwt'' ''concept'' ''session'' 2,
        mention 8 ''auth'' ''concept'' ''session'' 2]"


text \<open>Two sessions and one knowledge area, without the metadata tables.\<close>

definition timeline_store :: store where
  "timeline_store =
     \<lparr>sessions = Some
        [\<lparr>s_id = 1, s_created_at = lit ''2024-01-01 10:00:00'', s_summary = lit ''set up auth''\<rparr>,
         \<lparr>s_id = 2, s_created_at = lit ''2024-01-03 09:30:00'', s_summary = lit ''rotate jwt keys''\<rparr>],
      knowledge = Some
        [\<lparr>k_id = 1, k_area = lit ''auth'', k_summary = lit ''tokens are jwt'',
          k_updated_at = lit ''2024-01-02 12:00:00''\<rparr>],
      facts = Some [], entity_metadata = None, entry_relations = None, memory_fts = False\<rparr>"





text \<open>
  A knowledge area with a long name, related to a session and mentioning "auth".
\<close>

definition long_area :: utext where
  "long_area = lit ''architecture-decisions-for-authentication-and-session-management-services''"

definition long_summary :: utext where
  "long_summary = lit ''access tokens are signed jwt and expire after one hour; refresh tokens rotate''"

definition long_area_store :: store where
  "long_area_store =
     \<lparr>sessions = Some
        [\<lparr>s_id = 1, s_created_at = lit ''2024-01-01 10:00:00'', s_summary = lit ''set up auth''\<rparr>],
      knowledge = Some
        [\<lparr>k_id = 1, k_area = long_area, k_summary = long_summary,
          k_updated_at = lit ''2024-01-02 12:00:00''\<rparr>],
      facts = Some [],
      entity_metadata = Some [mention 1 ''auth'' ''concept'' ''knowledge'' 1],
      entry_relations = Some
        [\<lparr>er_from_type = lit ''knowledge'', er_from_id = 1, er_to_type = lit ''session'',
          er_to_id = 1, er_relation = lit ''derived_from'',
          er_created_at = lit ''2024-01-02 12:00:00''\<rparr>],
      memory_fts = False\<rparr>"

section \<open>Properties of the SQL primitives\<close>

lemma tally_keys: "fst ` set (tally k r gs) = insert k (fst ` set gs)"
  by (induction k r gs rule: tally.induct) auto

lemma tally_distinct: "distinct (map fst gs) \<Longrightarrow> distinct (map fst (tally k r gs))"
proof (induction k r gs rule: tally.induct)
  case (1 k r)
  then show ?case by simp
next
  case (2 k r k' n r' gs)
  then show ?case using tally_keys [of k r gs] by (auto simp: image_iff)
qed

lemma tally_member:
  "(k', n, r') \<in> set (tally k r gs) \<Longrightarrow> (k' = k \<and> r' = r) \<or> (k', n, r') \<in> set gs"
  by (induction k r gs rule: tally.induct) (auto split: if_splits)

lemma tally_count:
  "map_of (map (\<lambda>(k, n, r). (k, n)) (tally k r gs)) k' =
     (if k' = k then Some (case map_of (map (\<lambda>(k, n, r). (k, n)) gs) k of None \<Rightarrow> 1 | Some n \<Rightarrow> Suc n)
      else map_of (map (\<lambda>(k, n, r). (k, n)) gs) k')"
  by (induction k r gs rule: tally.induct) auto

lemma group_count_snoc:
  "group_count key (rows @ [x]) = tally (key x) x (group_count key rows)"
  by (simp add: group_count_def)

lemma group_count_distinct: "distinct (map fst (group_count key rows))"
proof (induction rows rule: rev_induct)
  case Nil
  then show ?case by (simp add: group_count_def)
next
  case (snoc x xs)
  then show ?case by (simp add: group_count_snoc tally_distinct)
qed

lemma group_count_rep:
  "(k, n, r) \<in> set (group_count key rows) \<Longrightarrow> r \<in> set rows \<and> key r = k"
proof (induction rows arbitrary: k n r rule: rev_induct)
  case Nil
  then show ?case by (simp add: group_count_def)
next
  case (snoc x xs)
  from snoc.prems have "(k = key x \<and> r = x) \<or> (k, n, r) \<in> set (group_count key xs)"
    unfolding group_count_snoc by (rule tally_member)
  then show ?case using snoc.IH by auto
qed

lemma group_count_map_of:
  "map_of (map (\<lambda>(k, n, r). (k, n)) (group_count key rows)) k =
     (if k \<in> key ` set rows then Some (length (filter (\<lambda>x. key x = k) rows)) else None)"
proof (induction rows rule: rev_induct)
  case Nil
  then show ?case by (simp add: group_count_def)
next
  case (snoc x xs)
  show ?case unfolding group_count_snoc tally_count using snoc.IH
    by (auto simp: filter_empty_conv) (metis imageI)
qed

lemma group_count_count:
  assumes "(k, n, r) \<in> set (group_count key rows)"
  shows "n = length (filter (\<lambda>x. key x = k) rows)"
proof -
  have d: "distinct (map fst (map (\<lambda>(k, n, r). (k, n)) (group_count key rows)))"
    using group_count_distinct [of key rows] by (simp add: comp_def case_prod_beta)
  have "(k, n) \<in> set (map (\<lambda>(k, n, r). (k, n)) (group_count key rows))"
    using assms by force
  then have "map_of (map (\<lambda>(k, n, r). (k, n)) (group_count key rows)) k = Some n"
    using d by simp
  then show ?thesis by (simp add: group_count_map_of split: if_splits)
qed

lemma group_count_pos:
  assumes "(k, n, r) \<in> set (group_count key rows)"
  shows "1 \<le> n"
proof -
  from assms have "r \<in> set rows" "key r = k" by (auto dest: group_count_rep)
  then have "r \<in> set (filter (\<lambda>x. key x = k) rows)" by simp
  then have "filter (\<lambda>x. key x = k) rows \<noteq> []" by (auto simp: filter_empty_conv)
  then show ?thesis using group_count_count [OF assms] by (simp add: Suc_le_eq)
qed

lemma set_order_by_desc: "set (order_by_desc key xs) = set xs"
  by (simp add: order_by_desc_def)

lemma length_order_by_desc: "length (order_by_desc key xs) = length xs"
  by (simp add: order_by_desc_def)

lemma sorted_order_by_desc: "sorted_wrt (\<lambda>a b. key b \<le> key a) (order_by_desc key xs)"
proof -
  have "sorted (map key (sort_key key (rev xs)))" by (rule sorted_sort_key)
  then have "sorted_wrt (\<lambda>a b. key a \<le> key b) (sort_key key (rev xs))"
    by (simp add: sorted_map)
  then show ?thesis by (simp add: order_by_desc_def sorted_wrt_rev)
qed

lemma in_sql_limitD: "x \<in> set (sql_limit n xs) \<Longrightarrow> x \<in> set xs"
  by (auto simp: sql_limit_def dest: in_set_takeD split: if_splits)

lemma in_py_slice_toD: "x \<in> set (py_slice_to n xs) \<Longrightarrow> x \<in> set xs"
  by (auto simp: py_slice_to_def dest: in_set_takeD split: if_splits)

lemma order_by_desc_Nil: "order_by_desc key [] = []"
  by (simp add: order_by_desc_def)


lemma find_SomeD: "find P xs = Some x \<Longrightarrow> x \<in> set xs \<and> P x"
  by (induction xs) (auto split: if_splits)

lemma lit_neq:
  "lit ''knowledge'' \<noteq> lit ''session''" "lit ''fact'' \<noteq> lit ''session''"
  "lit ''fact'' \<noteq> lit ''knowledge''"
  by (simp_all add: lit_def)

section \<open>The guarded queries return\<close>

text \<open>
  On the object built for a database file, the queries that are guarded by the table
  flags do not raise, provided the limit fits a 64-bit integer.
\<close>

lemma bind_int_ok: "sqlite_integer n \<Longrightarrow> bind_int n = Inr n"
  by (simp add: bind_int_def sqlite_integer_def)

lemma get_stats_returns: "\<exists>r. get_stats (open_db path st) = Inr r"
  by (cases "sessions st"; cases "knowledge st"; cases "facts st";
      cases "entity_metadata st"; cases "entry_relations st")
     (simp_all add: get_stats_def open_db_def ensure_tables_exist_def stat_of_def count_rows_def)

lemma entity_listings_return:
  assumes "sqlite_integer limit"
  shows "\<exists>r. get_entities (open_db path st) limit = Inr r"
    and "\<exists>r. get_top_entities (open_db path st) limit = Inr r"
    and "\<exists>r. get_co_occurrences (open_db path st) limit = Inr r"
  using bind_int_ok [OF assms]
  by (cases "entity_metadata st";
      simp add: get_entities_def get_top_entities_def get_co_occurrences_def entity_counts_def
        open_db_def ensure_tables_exist_def has_entities_def)+

section \<open>Reference counts of the entity listings\<close>

lemma entity_counts_member:
  assumes "entity_counts self limit = Inr rows" and "e \<in> set rows"
  shows "te_ref_count e = mention_count self (te_entity e) (te_entity_type e) \<and> 1 \<le> te_ref_count e"
proof -
  from assms(1) obtain ms n where ms: "entity_metadata (conn self) = Some ms"
    and rows: "rows = sql_limit n (order_by_desc te_ref_count
        (map (\<lambda>(k, c, r). \<lparr>te_entity = fst k, te_entity_type = snd k, te_ref_count = c\<rparr>)
           (group_count (\<lambda>r. (em_entity r, em_entity_type r)) ms)))"
    by (auto simp: entity_counts_def split: option.splits sum.splits)
  from assms(2) rows have "e \<in> set (map (\<lambda>(k, c, r). \<lparr>te_entity = fst k, te_entity_type = snd k, te_ref_count = c\<rparr>)
           (group_count (\<lambda>r. (em_entity r, em_entity_type r)) ms))"
    by (auto dest!: in_sql_limitD simp: set_order_by_desc)
  then obtain k c r where g: "(k, c, r) \<in> set (group_count (\<lambda>r. (em_entity r, em_entity_type r)) ms)"
    and e: "e = \<lparr>te_entity = fst k, te_entity_type = snd k, te_ref_count = c\<rparr>"
    by auto
  have "c = length (filter (\<lambda>x. (em_entity x, em_entity_type x) = k) ms)"
    using g by (rule group_count_count)
  moreover have "1 \<le> c" using g by (rule group_count_pos)
  ultimately show ?thesis
    using e ms by (cases k) (simp add: mention_count_def table_rows_def)
qed

lemma grouped_append_member:
  "(t', items) \<in> set (grouped_append t x g) \<Longrightarrow> it \<in> set items \<Longrightarrow>
     (t' = t \<and> it = x) \<or> (\<exists>items0. (t', items0) \<in> set g \<and> it \<in> set items0)"
  by (induction t x g rule: grouped_append.induct) (auto split: if_splits)

lemma regroup_member:
  "(t, items) \<in> set (foldl (\<lambda>grouped r. grouped_append (te_entity_type r)
        \<lparr>ei_entity = te_entity r, ei_refs = te_ref_count r\<rparr> grouped) acc rows) \<Longrightarrow>
   it \<in> set items \<Longrightarrow>
     (\<exists>r \<in> set rows. te_entity_type r = t \<and> te_entity r = ei_entity it \<and> te_ref_count r = ei_refs it)
     \<or> (\<exists>items0. (t, items0) \<in> set acc \<and> it \<in> set items0)"
proof (induction rows arbitrary: items rule: rev_induct)
  case Nil
  then show ?case by auto
next
  case (snoc r rows)
  let ?g = "foldl (\<lambda>grouped r. grouped_append (te_entity_type r)
        \<lparr>ei_entity = te_entity r, ei_refs = te_ref_count r\<rparr> grouped) acc rows"
  from snoc.prems have "(t, items) \<in> set (grouped_append (te_entity_type r)
        \<lparr>ei_entity = te_entity r, ei_refs = te_ref_count r\<rparr> ?g)" by simp
  from grouped_append_member [OF this snoc.prems(2)]
  show ?case
  proof
    assume "t = te_entity_type r \<and> it = \<lparr>ei_entity = te_entity r, ei_refs = te_ref_count r\<rparr>"
    then show ?thesis by auto
  next
    assume "\<exists>items0. (t, items0) \<in> set ?g \<and> it \<in> set items0"
    then obtain items0 where "(t, items0) \<in> set ?g" "it \<in> set items0" by blast
    from snoc.IH [OF this] show ?thesis by auto
  qed
qed

text \<open>
  C5. Every \<open>{entity, refs}\<close> entry that \<open>get_entities\<close> reports under an entity type,
  and every \<open>{entity, entity_type, ref_count}\<close> entry that \<open>get_top_entities\<close> reports,
  carries a count equal to the number of \<open>entity_metadata\<close> rows with that entity name
  and that entity type, and the count is at least 1.
\<close>

theorem reference_counts_exact:
  "(\<forall>grouped t items it.
      get_entities self limit = Inr grouped \<longrightarrow> (t, items) \<in> set grouped \<longrightarrow> it \<in> set items \<longrightarrow>
        ei_refs it = mention_count self (ei_entity it) t \<and> 1 \<le> ei_refs it)
   \<and> (\<forall>top e.
      get_top_entities self limit = Inr top \<longrightarrow> e \<in> set top \<longrightarrow>
        te_ref_count e = mention_count self (te_entity e) (te_entity_type e) \<and> 1 \<le> te_ref_count e)"
proof (intro conjI allI impI)
  fix grouped t items it
  assume g: "get_entities self limit = Inr grouped"
    and m: "(t, items) \<in> set grouped" "it \<in> set items"
  from g m obtain rows where rows: "entity_counts self limit = Inr rows"
    and gr: "grouped = foldl (\<lambda>grouped r. grouped_append (te_entity_type r)
        \<lparr>ei_entity = te_entity r, ei_refs = te_ref_count r\<rparr> grouped) [] rows"
    by (auto simp: get_entities_def split: if_splits sum.splits)
  from regroup_member [OF m(1) [unfolded gr] m(2)]
  obtain r where r: "r \<in> set rows" "te_entity_type r = t" "te_entity r = ei_entity it"
    "te_ref_count r = ei_refs it" by auto
  from entity_counts_member [OF rows r(1)] r
  show "ei_refs it = mention_count self (ei_entity it) t" and "1 \<le> ei_refs it" by auto
next
  fix top e
  assume g: "get_top_entities self limit = Inr top" and m: "e \<in> set top"
  from g m have "entity_counts self limit = Inr top"
    by (auto simp: get_top_entities_def split: if_splits)
  from entity_counts_member [OF this m]
  show "te_ref_count e = mention_count self (te_entity e) (te_entity_type e)"
    and "1 \<le> te_ref_count e" by auto
qed

theorem reference_counts_exact_witness:
  "get_entities (memory_db scenario_store) 50 =
     Inr [(lit ''concept'', [\<lparr>ei_entity = lit ''auth'', ei_refs = 2\<rparr>,
                             \<lparr>ei_entity = lit ''jwt'', ei_refs = 1\<rparr>])]
   \<and> get_top_entities (memory_db scenario_store) 50 =
     Inr [\<lparr>te_entity = lit ''auth'', te_entity_type = lit ''concept'', te_ref_count = 2\<rparr>,
          \<lparr>te_entity = lit ''jwt'', te_entity_type = lit ''concept'', te_ref_count = 1\<rparr>]
   \<and> mention_count (memory_db scenario_store) (lit ''auth'') (lit ''concept'') = 2
   \<and> mention_count (memory_db scenario_store) (lit ''jwt'') (lit ''concept'') = 1"
proof -
  let ?db = "memory_db scenario_store"
  have g: "get_entities ?db 50 =
     Inr [(lit ''concept'', [\<lparr>ei_entity = lit ''auth'', ei_refs = 2\<rparr>,
                             \<lparr>ei_entity = lit ''jwt'', ei_refs = 1\<rparr>])]"
    by code_simp
  have t: "get_top_entities ?db 50 =
     Inr [\<lparr>te_entity = lit ''auth'', te_entity_type = lit ''concept'', te_ref_count = 2\<rparr>,
          \<lparr>te_entity = lit ''jwt'', te_entity_type = lit ''concept'', te_ref_count = 1\<rparr>]"
    by code_simp
  from reference_counts_exact [of ?db 50] g
  have "2 = mention_count ?db (lit ''auth'') (lit ''concept'')" by fastforce
  moreover from reference_counts_exact [of ?db 50] t
  have "1 = mention_count ?db (lit ''jwt'') (lit ''concept'')" by fastforce
  ultimately show ?thesis using g t by simp
qed

section \<open>Co-occurrence edges\<close>








text \<open>
  C1. In the scenario where "auth" and "jwt" are both mentioned in knowledge#1 and in
  knowledge#2, the edge with count 2 is reported when the mention of "auth" has the
  smaller id in both sources. With the ids 1, 2 in knowledge#1 and 4, 3 in knowledge#2
  the two shared sources fall into the groups ("auth", "jwt") and ("jwt", "auth") of one
  row each, and no edge is returned.
\<close>

theorem co_occurrence_depends_on_ids:
  "get_co_occurrences (memory_db (auth_jwt_store 1 2 3 4)) 100 =
     Inr [\<lparr>entity_a = lit ''auth'', type_a = lit ''concept'',
           entity_b = lit ''jwt'', type_b = lit ''concept'', shared_sources = 2\<rparr>]
   \<and> get_co_occurrences (memory_db (auth_jwt_store 1 2 4 3)) 100 = Inr []"
  by code_simp

text \<open>
  C2. The join of \<open>get_co_occurrences\<close> has no condition on the entity names: two
  mention rows of the name "auth" in each of two sources are reported as the edge
  ("auth", "auth").
\<close>

theorem co_occurrence_self_pair:
  "get_co_occurrences (memory_db self_pair_store) 100 =
     Inr [\<lparr>entity_a = lit ''auth'', type_a = lit ''concept'',
           entity_b = lit ''auth'', type_b = lit ''package'', shared_sources = 2\<rparr>]"
  by code_simp

text \<open>
  C3. When the order of the mention ids of two names differs between sources, the pair
  is returned in both orders, each edge counting only the sources of its own order.
\<close>

theorem co_occurrence_reversed_pair:
  "get_co_occurrences (memory_db reversed_pair_store) 100 =
     Inr [\<lparr>entity_a = lit ''auth'', type_a = lit ''concept'',
           entity_b = lit ''jwt'', type_b = lit ''concept'', shared_sources = 2\<rparr>,
          \<lparr>entity_a = lit ''jwt'', type_a = lit ''concept'',
           entity_b = lit ''auth'', type_b = lit ''concept'', shared_sources = 2\<rparr>]"
  by code_simp

section \<open>The timeline\<close>

text \<open>
  C6, amended. For every store and every limit with \<open>0 \<le> limit < 2 ^ 63\<close>,
  \<open>get_timeline\<close> returns the timeline of the specification: each source is cut to
  its \<open>limit\<close> most recent rows before the merge, the merged list is sorted by
  timestamp descending and cut to \<open>limit\<close>; so adjacent entries have descending
  timestamps and the length is at most \<open>limit\<close>.
\<close>

theorem timeline_refines_spec:
  assumes "0 \<le> limit" and "limit < 2 ^ 63"
  shows "get_timeline (open_db path st) limit = Inr (timeline_spec st (nat limit))
       \<and> sorted_wrt (\<lambda>a b. tl_created_at b \<le> tl_created_at a) (timeline_spec st (nat limit))
       \<and> int (length (timeline_spec st (nat limit))) \<le> limit"
proof (intro conjI)
  from assms have b: "bind_int limit = Inr limit" by (simp add: bind_int_def)
  show "get_timeline (open_db path st) limit = Inr (timeline_spec st (nat limit))"
    using assms(1) b
    by (cases "sessions st"; cases "knowledge st")
       (simp_all add: get_timeline_def open_db_def ensure_tables_exist_def select_sessions_def
          select_knowledge_def timeline_spec_def most_recent_def table_rows_def sql_limit_def
          py_slice_to_def order_by_desc_Nil)
  show "sorted_wrt (\<lambda>a b. tl_created_at b \<le> tl_created_at a) (timeline_spec st (nat limit))"
    unfolding timeline_spec_def by (intro sorted_wrt_take sorted_order_by_desc)
  show "int (length (timeline_spec st (nat limit))) \<le> limit"
    using assms(1) by (simp add: timeline_spec_def)
qed

theorem timeline_refines_spec_witness:
  "(0::int) \<le> 2 \<and> (2::int) < 2 ^ 63
   \<and> get_timeline (memory_db timeline_store) 2 =
       Inr [\<lparr>tl_id = 2, tl_created_at = lit ''2024-01-03 09:30:00'',
             tl_summary = lit ''rotate jwt keys'', tl_type = lit ''session''\<rparr>,
            \<lparr>tl_id = 1, tl_created_at = lit ''2024-01-02 12:00:00'',
             tl_summary = lit ''auth: tokens are jwt'', tl_type = lit ''knowledge''\<rparr>]
   \<and> int (length (timeline_spec timeline_store (nat 2))) \<le> 2"
proof -
  have h: "(0::int) \<le> 2" "(2::int) < 2 ^ 63" by simp_all
  have e: "timeline_spec timeline_store (nat 2) =
       [\<lparr>tl_id = 2, tl_created_at = lit ''2024-01-03 09:30:00'',
             tl_summary = lit ''rotate jwt keys'', tl_type = lit ''session''\<rparr>,
            \<lparr>tl_id = 1, tl_created_at = lit ''2024-01-02 12:00:00'',
             tl_summary = lit ''auth: tokens are jwt'', tl_type = lit ''knowledge''\<rparr>]"
    by code_simp
  from timeline_refines_spec [OF h, of "lit ''memory.db''" timeline_store] e h
  show ?thesis by (simp add: memory_db_def)
qed

text \<open>
  C6 as stated, for every limit, fails outside that range: with \<open>limit = -1\<close> the SQL
  \<open>LIMIT\<close> is unbounded and the slice \<open>entries[:-1]\<close> drops the last of three
  entries, leaving two, which is more than the limit; with \<open>limit = 2 ^ 63\<close> binding
  the parameter raises \<open>OverflowError\<close>.
\<close>

theorem timeline_limit_out_of_range:
  "get_timeline (memory_db timeline_store) (- 1) =
     Inr [\<lparr>tl_id = 2, tl_created_at = lit ''2024-01-03 09:30:00'',
           tl_summary = lit ''rotate jwt keys'', tl_type = lit ''session''\<rparr>,
          \<lparr>tl_id = 1, tl_created_at = lit ''2024-01-02 12:00:00'',
           tl_summary = lit ''auth: tokens are jwt'', tl_type = lit ''knowledge''\<rparr>]
   \<and> \<not> (2::int) \<le> - 1
   \<and> get_timeline (memory_db timeline_store) (2 ^ 63) = Inl OverflowError"
  by code_simp

section \<open>Relations with a dangling endpoint\<close>



lemma digits_not_Nil: "digits n \<noteq> []"
  by (subst digits.simps) simp

lemma placeholder_not_Nil: "placeholder ty i \<noteq> []"
  by (simp add: placeholder_def lit_def)







section \<open>Entity detail for a query without a match\<close>

lemma like_percent: "like_match [37] s"
  by (induction s) simp_all

lemma like_skip: "like_match p s \<Longrightarrow> like_match (37 # p) (r @ s)"
proof (induction r)
  case Nil
  then show ?case by (cases s) simp_all
next
  case (Cons x r)
  then show ?case by simp
qed

lemma like_self_prefix: "like_match (q @ [37]) (q @ t)"
proof (induction q)
  case Nil
  show ?case by (simp add: like_percent)
next
  case (Cons c q)
  show ?case
  proof (cases "c = 37")
    case True
    from like_skip [OF Cons, of "[c]"] True show ?thesis by simp
  next
    case False
    with Cons show ?thesis by simp
  qed
qed

lemma like_substring:
  assumes "sublist q s"
  shows "like_match (like_pattern q) s"
proof -
  from assms obtain ps ss where "s = ps @ q @ ss" by (auto simp: sublist_def)
  then show ?thesis using like_skip [OF like_self_prefix, of q ps ss]
    by (simp add: like_pattern_def)
qed

lemma name_like_if_contains: "name_contains_query st q \<Longrightarrow> name_like_query st q"
  by (auto simp: name_contains_query_def name_like_query_def list_ex_iff intro: like_substring)







section \<open>Calls do not change the object\<close>



section \<open>Label budgets\<close>

lemma relation_label_budget:
  assumes "relation_label ss ks fs ty i = Some l"
  shows "(ty \<noteq> lit ''knowledge'' \<longrightarrow> length l \<le> 60)
       \<and> (ty = lit ''knowledge'' \<longrightarrow> (\<exists>k \<in> set ks. k_id k = i \<and> l = k_area k))"
proof (cases "ty = lit ''knowledge''")
  case True
  with assms obtain k where "find (\<lambda>k. k_id k = i) ks = Some k" "l = k_area k"
    by (auto simp: relation_label_def lit_neq)
  then show ?thesis using True by (auto dest: find_SomeD)
next
  case False
  with assms have "length l \<le> 60"
    by (auto simp: relation_label_def split: if_splits)
  with False show ?thesis by simp
qed

lemma source_context_budget:
  assumes "source_context ss ks fs ty i = Some l"
  shows "(ty \<noteq> lit ''knowledge'' \<longrightarrow> length l \<le> 80)
       \<and> (ty = lit ''knowledge'' \<longrightarrow>
            (\<exists>k \<in> set ks. k_id k = i \<and> l = k_area k @ lit '': '' @ take 60 (k_summary k)))"
proof (cases "ty = lit ''knowledge''")
  case True
  with assms obtain k where "find (\<lambda>k. k_id k = i) ks = Some k"
    "l = k_area k @ lit '': '' @ take 60 (k_summary k)"
    by (auto simp: source_context_def lit_neq)
  then show ?thesis using True by (auto dest: find_SomeD)
next
  case False
  with assms have "length l \<le> 80"
    by (auto simp: source_context_def split: if_splits)
  with False show ?thesis by simp
qed

lemma get_relations_cases:
  assumes "get_relations self = Inr rels" and "rel \<in> set rels"
  obtains ss ks fs er where "knowledge (conn self) = Some ks"
    and "rel = label_relation ss ks fs er"
  using assms
  by (auto simp: get_relations_def split: if_splits option.splits)

lemma get_entity_detail_cases:
  assumes "get_entity_detail self q = Inr d" and "s \<in> set (ed_sources d)"
  obtains ss ks fs ems where "knowledge (conn self) = Some ks"
    and "s \<in> set (detail_sources ss ks fs ems q)"
  using assms
  by (auto simp: get_entity_detail_def Let_def split: if_splits option.splits sum.splits)

text \<open>
  C4, amended. An endpoint label of \<open>get_relations\<close> that is derived from a session
  summary or a fact text has at most 60 characters, and a context label of
  \<open>get_entity_detail\<close> derived from a session summary or a fact text has at most 80. A
  label derived from a knowledge area is not cut to a budget: in \<open>get_relations\<close> it is
  the area name in full, in \<open>get_entity_detail\<close> it is the area name in full, followed
  by \<open>": "\<close> and the first 60 characters of the summary.
\<close>

theorem label_budgets:
  "(\<forall>rels rel l. get_relations self = Inr rels \<longrightarrow> rel \<in> set rels \<longrightarrow>
      (from_label rel = Some l \<longrightarrow>
         (from_type rel \<noteq> lit ''knowledge'' \<longrightarrow> length l \<le> 60)
       \<and> (from_type rel = lit ''knowledge'' \<longrightarrow>
            (\<exists>k \<in> set (table_rows (knowledge (conn self))). k_id k = from_id rel \<and> l = k_area k)))
    \<and> (to_label rel = Some l \<longrightarrow>
         (to_type rel \<noteq> lit ''knowledge'' \<longrightarrow> length l \<le> 60)
       \<and> (to_type rel = lit ''knowledge'' \<longrightarrow>
            (\<exists>k \<in> set (table_rows (knowledge (conn self))). k_id k = to_id rel \<and> l = k_area k))))
   \<and> (\<forall>d s l. get_entity_detail self q = Inr d \<longrightarrow> s \<in> set (ed_sources d) \<longrightarrow>
        sr_context s = Some l \<longrightarrow>
         (sr_source_type s \<noteq> lit ''knowledge'' \<longrightarrow> length l \<le> 80)
       \<and> (sr_source_type s = lit ''knowledge'' \<longrightarrow>
            (\<exists>k \<in> set (table_rows (knowledge (conn self))).
               k_id k = sr_source_id s \<and> l = k_area k @ lit '': '' @ take 60 (k_summary k))))"
proof (intro conjI allI impI)
  fix rels rel l
  assume g: "get_relations self = Inr rels" "rel \<in> set rels"
  from g obtain ss ks fs er where ks: "knowledge (conn self) = Some ks"
    and rel: "rel = label_relation ss ks fs er"
    by (rule get_relations_cases)
  {
    assume "from_label rel = Some l"
    with rel have "relation_label ss ks fs (from_type rel) (from_id rel) = Some l"
      by (simp add: label_relation_def)
    from relation_label_budget [OF this] ks
    show "from_type rel \<noteq> lit ''knowledge'' \<Longrightarrow> length l \<le> 60"
      and "from_type rel = lit ''knowledge'' \<Longrightarrow>
        \<exists>k \<in> set (table_rows (knowledge (conn self))). k_id k = from_id rel \<and> l = k_area k"
      by (simp_all add: table_rows_def)
  }
  {
    assume "to_label rel = Some l"
    with rel have "relation_label ss ks fs (to_type rel) (to_id rel) = Some l"
      by (simp add: label_relation_def)
    from relation_label_budget [OF this] ks
    show "to_type rel \<noteq> lit ''knowledge'' \<Longrightarrow> length l \<le> 60"
      and "to_type rel = lit ''knowledge'' \<Longrightarrow>
        \<exists>k \<in> set (table_rows (knowledge (conn self))). k_id k = to_id rel \<and> l = k_area k"
      by (simp_all add: table_rows_def)
  }
next
  fix d s l
  assume g: "get_entity_detail self q = Inr d" "s \<in> set (ed_sources d)"
    and l: "sr_context s = Some l"
  from g obtain ss ks fs ems where ks: "knowledge (conn self) = Some ks"
    and s: "s \<in> set (detail_sources ss ks fs ems q)"
    by (rule get_entity_detail_cases)
  from s l have "source_context ss ks fs (sr_source_type s) (sr_source_id s) = Some l"
    by (auto simp: detail_sources_def)
  from source_context_budget [OF this] ks
  show "sr_source_type s \<noteq> lit ''knowledge'' \<Longrightarrow> length l \<le> 80"
    and "sr_source_type s = lit ''knowledge'' \<Longrightarrow>
      \<exists>k \<in> set (table_rows (knowledge (conn self))).
        k_id k = sr_source_id s \<and> l = k_area k @ lit '': '' @ take 60 (k_summary k)"
    by (simp_all add: table_rows_def)
qed

theorem label_budgets_witness:
  "get_relations (memory_db long_area_store) =
     Inr [\<lparr>from_type = lit ''knowledge'', from_id = 1, to_type = lit ''session'', to_id = 1,
           relation = lit ''derived_from'', from_label = Some long_area,
           to_label = Some (lit ''set up auth'')\<rparr>]
   \<and> length (lit ''set up auth'') \<le> 60
   \<and> (\<exists>k \<in> set (table_rows (knowledge long_area_store)). k_id k = 1 \<and> long_area = k_area k)"
proof -
  let ?rel = "\<lparr>from_type = lit ''knowledge'', from_id = 1, to_type = lit ''session'', to_id = 1,
           relation = lit ''derived_from'', from_label = Some long_area,
           to_label = Some (lit ''set up auth'')\<rparr>"
  have g: "get_relations (memory_db long_area_store) = Inr [?rel]" by code_simp
  have n: "lit ''session'' \<noteq> lit ''knowledge''" using lit_neq(1) by simp
  have c: "conn (memory_db long_area_store) = long_area_store"
    by (simp add: memory_db_def open_db_def)
  have m: "?rel \<in> set [?rel]" by simp
  from label_budgets [of "memory_db long_area_store" "lit ''auth''"]
  have a: "\<And>l. to_label ?rel = Some l \<Longrightarrow> to_type ?rel \<noteq> lit ''knowledge'' \<Longrightarrow> length l \<le> 60"
    and b: "\<And>l. from_label ?rel = Some l \<Longrightarrow> from_type ?rel = lit ''knowledge'' \<Longrightarrow>
      \<exists>k \<in> set (table_rows (knowledge (conn (memory_db long_area_store)))).
        k_id k = from_id ?rel \<and> l = k_area k"
    using g m by blast+
  from a [of "lit ''set up auth''"] n have "length (lit ''set up auth'') \<le> 60" by simp
  moreover from b [of long_area]
  have "\<exists>k \<in> set (table_rows (knowledge long_area_store)). k_id k = 1 \<and> long_area = k_area k"
    by (simp add: c)
  ultimately show ?thesis using g by simp
qed

text \<open>
  C4 as stated fails for labels derived from knowledge areas: an area name of 73
  characters is the endpoint label of \<open>get_relations\<close> in full, and the context label
  of \<open>get_entity_detail\<close> is that name, a colon, a space and 60 characters of the summary,
  135 characters in all.
\<close>

theorem knowledge_label_exceeds_budget:
  "get_relations (memory_db long_area_store) =
     Inr [\<lparr>from_type = lit ''knowledge'', from_id = 1, to_type = lit ''session'', to_id = 1,
           relation = lit ''derived_from'', from_label = Some long_area,
           to_label = Some (lit ''set up auth'')\<rparr>]
   \<and> length long_area = 73
   \<and> get_entity_detail (memory_db long_area_store) (lit ''auth'') =
       Inr \<lparr>ed_entity = lit ''auth'',
            ed_sources =
              [\<lparr>sr_entity_type = lit ''concept'', sr_source_type = lit ''knowledge'',
                sr_source_id = 1,
                sr_context = Some (long_area @ lit '': '' @ take 60 long_summary)\<rparr>],
            ed_relations =
              [\<lparr>rr_from_type = lit ''knowledge'', rr_from_id = 1, rr_to_type = lit ''session'',
                rr_to_id = 1, rr_relation = lit ''derived_from''\<rparr>],
            ed_co_occurring = []\<rparr>
   \<and> length (long_area @ lit '': '' @ take 60 long_summary) = 135"
  by code_simp

end
